theory Spec2Isabelle
  imports Main "HOL-Library.AList"
begin

section \<open>Strings and paths\<close>

text \<open>
  A Python \<open>str\<close> is represented by the list of bytes of its UTF-8 encoding, so that
  equality of strings is equality of lists. The file tools run on a POSIX system:
  \<open>os.sep\<close> is the slash and \<open>os.linesep\<close> is a single line feed.
\<close>

definition LF :: char where
  "LF = CHR 0x0A"

definition CR :: char where
  "CR = CHR 0x0D"

text \<open>
  Text mode of \<open>open\<close> with the default \<open>newline=None\<close>: on reading, the
  sequences CR LF and a lone CR are translated to LF; on writing, LF is translated to
  \<open>os.linesep\<close>, which changes nothing here.
\<close>

fun universal_newlines :: "string \<Rightarrow> string" where
  "universal_newlines [] = []"
| "universal_newlines [c] = (if c = CR then [LF] else [c])"
| "universal_newlines (c # d # ds) =
     (if c = CR \<and> d = LF then LF # universal_newlines ds
      else if c = CR then LF # universal_newlines (d # ds)
      else c # universal_newlines (d # ds))"

text \<open>\<open>s.split('/')\<close>: the pieces between the separators, never an empty list.\<close>

fun split_sep :: "string \<Rightarrow> string list" where
  "split_sep [] = [[]]"
| "split_sep (c # cs) =
     (if c = CHR ''/'' then [] # split_sep cs
      else (case split_sep cs of [] \<Rightarrow> [[c]] | x # xs \<Rightarrow> (c # x) # xs))"

text \<open>
  A \<open>pathlib.Path\<close>: its anchor (empty for a relative path, one slash, or two slashes
  when the string starts with exactly two) and its components. Parsing drops empty
  components and single dots, and keeps double dots.
\<close>

record ppath =
  anchor :: string
  parts :: "string list"

definition isabs :: "string \<Rightarrow> bool" where
  "isabs s = (take 1 s = ''/'')"

definition Path :: "string \<Rightarrow> ppath" where
  "Path s =
     \<lparr>anchor = (if take 2 s = ''//'' \<and> take 3 s \<noteq> ''///'' then ''//''
                else if take 1 s = ''/'' then ''/'' else ''''),
      parts = filter (\<lambda>c. c \<noteq> '''' \<and> c \<noteq> ''.'') (split_sep s)\<rparr>"

text \<open>\<open>p / s\<close>: a rooted right operand replaces the left one.\<close>

definition joinpath :: "ppath \<Rightarrow> string \<Rightarrow> ppath" where
  "joinpath p s = (if isabs s then Path s else p\<lparr>parts := parts p @ parts (Path s)\<rparr>)"

text \<open>\<open>p.parent\<close>: the path without its last component; a path with none is its own parent.\<close>

definition parent :: "ppath \<Rightarrow> ppath" where
  "parent p = p\<lparr>parts := butlast (parts p)\<rparr>"

fun intercalate :: "string \<Rightarrow> string list \<Rightarrow> string" where
  "intercalate sep [] = []"
| "intercalate sep [x] = x"
| "intercalate sep (x # y # ys) = x @ sep @ intercalate sep (y # ys)"

definition path_str :: "ppath \<Rightarrow> string" where
  "path_str p =
     (if anchor p = '''' \<and> parts p = [] then ''.''
      else anchor p @ intercalate ''/'' (parts p))"

section \<open>The filesystem\<close>

text \<open>
  A directory tree: a regular file carries its write permission and its bytes, a
  directory the list of its entries in the order a listing returns them. Symbolic links
  are not modelled. The state also holds the working directory of the process as a list
  of components from the root.
\<close>

datatype node = File bool string | Dir "(string \<times> node) list"

record fs =
  tree :: node
  cwd :: "string list"

datatype errno = ENOENT | ENOTDIR | EISDIR | EEXIST | EACCES | ENAMETOOLONG

definition NAME_MAX :: nat where
  "NAME_MAX = 255"

fun lookup_node :: "node \<Rightarrow> string list \<Rightarrow> errno + node" where
  "lookup_node n [] = Inr n"
| "lookup_node (File w c) (x # xs) = Inl ENOTDIR"
| "lookup_node (Dir kids) (x # xs) =
     (case map_of kids x of None \<Rightarrow> Inl ENOENT | Some k \<Rightarrow> lookup_node k xs)"

text \<open>
  Path resolution of the kernel, component by component: the directory reached so far
  must exist and be a directory, a component longer than \<open>NAME_MAX\<close> is refused,
  and a double dot goes one level up. The result is the location the path names;
  nothing need exist there.
\<close>

fun namei :: "node \<Rightarrow> string list \<Rightarrow> string list \<Rightarrow> errno + string list" where
  "namei r cur [] = Inr cur"
| "namei r cur (c # cs) =
     (case lookup_node r cur of
        Inl e \<Rightarrow> Inl e
      | Inr (File w b) \<Rightarrow> Inl ENOTDIR
      | Inr (Dir kids) \<Rightarrow>
          if NAME_MAX < length c then Inl ENAMETOOLONG
          else namei r (if c = ''..'' then butlast cur else cur @ [c]) cs)"

definition locate :: "fs \<Rightarrow> ppath \<Rightarrow> errno + string list" where
  "locate s p = namei (tree s) (if anchor p = '''' then cwd s else []) (parts p)"

text \<open>Replacing or adding the node at a location whose parent directory exists.\<close>

fun store_node :: "node \<Rightarrow> string list \<Rightarrow> node \<Rightarrow> node" where
  "store_node n [] v = v"
| "store_node (File w c) (x # xs) v = File w c"
| "store_node (Dir kids) (x # xs) v =
     (case map_of kids x of
        None \<Rightarrow> (if xs = [] then Dir (kids @ [(x, v)]) else Dir kids)
      | Some k \<Rightarrow> Dir (AList.update x (store_node k xs v) kids))"

subsection \<open>Exceptions\<close>

text \<open>
  An \<open>OSError\<close> carries its error number and the path it is about; every subclass
  Python derives from the error number is an \<open>Exception\<close>. \<open>SystemExit\<close>, raised by
  \<open>sys.exit\<close>, is not: an \<open>except Exception\<close> clause lets it pass.
\<close>

datatype exn = OSError errno string | SystemExit nat

fun is_Exception :: "exn \<Rightarrow> bool" where
  "is_Exception (OSError e p) = True"
| "is_Exception (SystemExit n) = False"

fun strerror :: "errno \<Rightarrow> string" where
  "strerror ENOENT = ''[Errno 2] No such file or directory''"
| "strerror ENOTDIR = ''[Errno 20] Not a directory''"
| "strerror EISDIR = ''[Errno 21] Is a directory''"
| "strerror EEXIST = ''[Errno 17] File exists''"
| "strerror EACCES = ''[Errno 13] Permission denied''"
| "strerror ENAMETOOLONG = ''[Errno 36] File name too long''"

fun exn_str :: "exn \<Rightarrow> string" where
  "exn_str (OSError e p) = strerror e @ '': '' @ [CHR 0x27] @ p @ [CHR 0x27]"
| "exn_str (SystemExit n) = ''''"

text \<open>The error numbers for which the probes of \<open>pathlib\<close> answer \<open>False\<close>.\<close>

fun ignore_error :: "errno \<Rightarrow> bool" where
  "ignore_error ENOENT = True"
| "ignore_error ENOTDIR = True"
| "ignore_error e = False"

subsection \<open>System calls and the methods of \<open>pathlib.Path\<close>\<close>

definition stat :: "fs \<Rightarrow> ppath \<Rightarrow> exn + node" where
  "stat s p =
     (case locate s p of
        Inl e \<Rightarrow> Inl (OSError e (path_str p))
      | Inr loc \<Rightarrow>
          (case lookup_node (tree s) loc of
             Inl e \<Rightarrow> Inl (OSError e (path_str p))
           | Inr n \<Rightarrow> Inr n))"

fun is_Dir :: "node \<Rightarrow> bool" where
  "is_Dir (Dir kids) = True"
| "is_Dir (File w c) = False"

text \<open>
  \<open>Path.exists\<close>, \<open>Path.is_dir\<close> and \<open>Path.is_file\<close> call \<open>stat\<close> and
  answer \<open>False\<close> only for the ignored error numbers; any other \<open>OSError\<close> is
  raised again.
\<close>

definition probe :: "(node \<Rightarrow> bool) \<Rightarrow> fs \<Rightarrow> ppath \<Rightarrow> exn + bool" where
  "probe f s p =
     (case stat s p of
        Inr n \<Rightarrow> Inr (f n)
      | Inl (OSError e q) \<Rightarrow> if ignore_error e then Inr False else Inl (OSError e q)
      | Inl x \<Rightarrow> Inl x)"

definition path_exists :: "fs \<Rightarrow> ppath \<Rightarrow> exn + bool" where
  "path_exists = probe (\<lambda>n. True)"

definition is_dir :: "fs \<Rightarrow> ppath \<Rightarrow> exn + bool" where
  "is_dir = probe is_Dir"

definition is_file :: "fs \<Rightarrow> ppath \<Rightarrow> exn + bool" where
  "is_file = probe (\<lambda>n. \<not> is_Dir n)"

text \<open>\<open>Path.read_text(encoding='utf-8')\<close>: the bytes of a regular file, in text mode.\<close>

definition read_text :: "fs \<Rightarrow> ppath \<Rightarrow> exn + string" where
  "read_text s p =
     (case stat s p of
        Inl x \<Rightarrow> Inl x
      | Inr (Dir kids) \<Rightarrow> Inl (OSError EISDIR (path_str p))
      | Inr (File w c) \<Rightarrow> Inr (universal_newlines c))"

text \<open>
  \<open>Path.write_text(data, encoding='utf-8')\<close> opens the file for writing, which
  creates it when it is missing and its directory exists, truncates it, and writes the
  data. An existing file keeps its permission; a new one is writable.
\<close>

definition write_text :: "fs \<Rightarrow> ppath \<Rightarrow> string \<Rightarrow> exn + fs" where
  "write_text s p d =
     (case locate s p of
        Inl e \<Rightarrow> Inl (OSError e (path_str p))
      | Inr loc \<Rightarrow>
          (case lookup_node (tree s) loc of
             Inr (Dir kids) \<Rightarrow> Inl (OSError EISDIR (path_str p))
           | Inr (File w c) \<Rightarrow>
               if w then Inr (s\<lparr>tree := store_node (tree s) loc (File w d)\<rparr>)
               else Inl (OSError EACCES (path_str p))
           | Inl e \<Rightarrow>
               if e = ENOENT \<and> loc \<noteq> []
                  \<and> (case lookup_node (tree s) (butlast loc) of Inr (Dir kids) \<Rightarrow> True | _ \<Rightarrow> False)
               then Inr (s\<lparr>tree := store_node (tree s) loc (File True d)\<rparr>)
               else Inl (OSError e (path_str p))))"

text \<open>\<open>os.mkdir\<close>: the location must be free and its parent a directory.\<close>

definition os_mkdir :: "fs \<Rightarrow> ppath \<Rightarrow> exn + fs" where
  "os_mkdir s p =
     (case locate s p of
        Inl e \<Rightarrow> Inl (OSError e (path_str p))
      | Inr loc \<Rightarrow>
          (case lookup_node (tree s) loc of
             Inr n \<Rightarrow> Inl (OSError EEXIST (path_str p))
           | Inl e \<Rightarrow>
               if e = ENOENT \<and> loc \<noteq> []
                  \<and> (case lookup_node (tree s) (butlast loc) of Inr (Dir kids) \<Rightarrow> True | _ \<Rightarrow> False)
               then Inr (s\<lparr>tree := store_node (tree s) loc (Dir [])\<rparr>)
               else Inl (OSError e (path_str p))))"

fun is_FileNotFoundError :: "exn \<Rightarrow> bool" where
  "is_FileNotFoundError (OSError e p) = (e = ENOENT)"
| "is_FileNotFoundError (SystemExit n) = False"

text \<open>
  \<open>Path.mkdir(parents=False, exist_ok=ok)\<close>: a missing parent is an error; any other
  \<open>OSError\<close> is dropped when \<open>ok\<close> holds and the path is a directory.
\<close>

definition mkdir_single :: "fs \<Rightarrow> ppath \<Rightarrow> bool \<Rightarrow> (exn + unit) \<times> fs" where
  "mkdir_single s p ok =
     (case os_mkdir s p of
        Inr s' \<Rightarrow> (Inr (), s')
      | Inl e \<Rightarrow>
          if is_FileNotFoundError e then (Inl e, s)
          else if \<not> ok then (Inl e, s)
          else (case is_dir s p of
                  Inl e' \<Rightarrow> (Inl e', s)
                | Inr b \<Rightarrow> if b then (Inr (), s) else (Inl e, s)))"

text \<open>
  \<open>Path.mkdir(parents=True, exist_ok=True)\<close>: on a missing parent, the parent is made
  in the same way and the directory is then made without \<open>parents\<close>.
\<close>

function mkdir_parents :: "fs \<Rightarrow> ppath \<Rightarrow> (exn + unit) \<times> fs" where
  "mkdir_parents s p =
     (case os_mkdir s p of
        Inr s' \<Rightarrow> (Inr (), s')
      | Inl e \<Rightarrow>
          if is_FileNotFoundError e then
            (if parts p = [] then (Inl e, s)
             else (case mkdir_parents s (parent p) of
                     (Inl e', s1) \<Rightarrow> (Inl e', s1)
                   | (Inr u, s1) \<Rightarrow> mkdir_single s1 p True))
          else (case is_dir s p of
                  Inl e' \<Rightarrow> (Inl e', s)
                | Inr b \<Rightarrow> if b then (Inr (), s) else (Inl e, s)))"
  by pat_completeness auto
termination
  by (relation "measure (\<lambda>(s, p). length (parts p))") (auto simp: parent_def)

declare mkdir_parents.simps [simp del]

section \<open>The file mutator and the file creator\<close>

text \<open>
  Both tools return their outcome as a string. A result \<open>Inl e\<close> stands for the
  exception \<open>e\<close> leaving the function; the second component is the filesystem after
  the call. Console output and the notifications sent through \<open>socket_service\<close> do
  not touch the filesystem and are left out, and so are \<open>time.sleep\<close> and the
  modification times, which are only printed.
\<close>

text \<open>\<open>try: ... except Exception as e: return h(e)\<close>\<close>

definition except_Exception ::
  "(exn + string) \<times> fs \<Rightarrow> (exn \<Rightarrow> string) \<Rightarrow> (exn + string) \<times> fs" where
  "except_Exception r h =
     (case r of
        (Inr v, s) \<Rightarrow> (Inr v, s)
      | (Inl e, s) \<Rightarrow> if is_Exception e then (Inr (h e), s) else (Inl e, s))"

text \<open>An absolute name stands for itself, any other is taken below the project root.\<close>

definition resolve :: "string \<Rightarrow> string \<Rightarrow> ppath" where
  "resolve project_root filename =
     (if isabs filename then Path filename else joinpath (Path project_root) filename)"

text \<open>
  The debugging output of \<open>apply_patch_raw\<close> evaluates \<open>file_path.exists()\<close>,
  \<open>file_path.is_file()\<close>, \<open>file_path.is_dir()\<close> and
  \<open>file_path.parent.exists()\<close> before the \<open>try\<close> statement is entered.
\<close>

definition debug_probes :: "fs \<Rightarrow> ppath \<Rightarrow> exn + unit" where
  "debug_probes s p =
     (case path_exists s p of Inl e \<Rightarrow> Inl e | Inr b1 \<Rightarrow>
      (case is_file s p of Inl e \<Rightarrow> Inl e | Inr b2 \<Rightarrow>
       (case is_dir s p of Inl e \<Rightarrow> Inl e | Inr b3 \<Rightarrow>
        (case path_exists s (parent p) of Inl e \<Rightarrow> Inl e | Inr b4 \<Rightarrow> Inr ()))))"

definition msg_not_found :: "ppath \<Rightarrow> string" where
  "msg_not_found file_path = ''Error: File not found: '' @ path_str file_path"

definition msg_unchanged :: "string \<Rightarrow> string" where
  "msg_unchanged filename = ''File '' @ filename @ '' already has the requested content''"

definition msg_verification_failed :: "string \<Rightarrow> string" where
  "msg_verification_failed filename = ''Error: File write verification failed for '' @ filename"

definition msg_updated :: "string \<Rightarrow> string" where
  "msg_updated filename = ''Successfully updated '' @ filename"

definition msg_error_updating :: "exn \<Rightarrow> string" where
  "msg_error_updating e = ''Error updating file: '' @ exn_str e"

definition msg_error_writing :: "string \<Rightarrow> exn \<Rightarrow> string" where
  "msg_error_writing filename e = ''Error writing file '' @ filename @ '': '' @ exn_str e"

text \<open>
  The end of both variants: the modification time is read again, the file is read back
  and compared with what was to be written.
\<close>

definition final_verification :: "fs \<Rightarrow> ppath \<Rightarrow> string \<Rightarrow> string \<Rightarrow> (exn + string) \<times> fs" where
  "final_verification s1 file_path filename new_content =
     (case stat s1 file_path of Inl e \<Rightarrow> (Inl e, s1) | Inr st \<Rightarrow>
      (case read_text s1 file_path of Inl e \<Rightarrow> (Inl e, s1) | Inr verification_content \<Rightarrow>
         if verification_content \<noteq> new_content
         then (Inr (msg_verification_failed filename), s1)
         else (Inr (msg_updated filename), s1)))"

text \<open>\<open>agent_tools/patch_tools.py\<close>: the body of the \<open>try\<close> statement.\<close>

definition apply_patch_try :: "fs \<Rightarrow> ppath \<Rightarrow> string \<Rightarrow> string \<Rightarrow> (exn + string) \<times> fs" where
  "apply_patch_try s file_path filename new_content =
     (case path_exists s file_path of Inl e \<Rightarrow> (Inl e, s) | Inr found \<Rightarrow>
      if \<not> found then (Inr (msg_not_found file_path), s)
      else
       (case read_text s file_path of Inl e \<Rightarrow> (Inl e, s) | Inr current_content \<Rightarrow>
        if current_content = new_content then (Inr (msg_unchanged filename), s)
        else
         (case stat s file_path of Inl e \<Rightarrow> (Inl e, s) | Inr st \<Rightarrow>
          (case write_text s file_path new_content of Inl e \<Rightarrow> (Inl e, s) | Inr s1 \<Rightarrow>
             final_verification s1 file_path filename new_content))))"

definition apply_patch_raw :: "fs \<Rightarrow> string \<Rightarrow> string \<Rightarrow> string \<Rightarrow> (exn + string) \<times> fs" where
  "apply_patch_raw s project_root filename new_content =
     (let file_path = resolve project_root filename in
      case debug_probes s file_path of
        Inl e \<Rightarrow> (Inl e, s)
      | Inr u \<Rightarrow>
          except_Exception (apply_patch_try s file_path filename new_content) msg_error_updating)"

text \<open>
  \<open>simple_patch_tools.py\<close>: the write and two reads for the debugging output sit in
  a \<open>try\<close> statement of their own, whose handler returns at once.
\<close>

definition simple_write_block :: "fs \<Rightarrow> ppath \<Rightarrow> string \<Rightarrow> (exn + unit) \<times> fs" where
  "simple_write_block s file_path new_content =
     (case write_text s file_path new_content of Inl e \<Rightarrow> (Inl e, s) | Inr s1 \<Rightarrow>
      (case read_text s1 file_path of Inl e \<Rightarrow> (Inl e, s1) | Inr verification_content \<Rightarrow>
       (case read_text s1 file_path of Inl e \<Rightarrow> (Inl e, s1) | Inr verification_content2 \<Rightarrow>
          (Inr (), s1))))"

definition simple_apply_patch_try :: "fs \<Rightarrow> ppath \<Rightarrow> string \<Rightarrow> string \<Rightarrow> (exn + string) \<times> fs" where
  "simple_apply_patch_try s file_path filename new_content =
     (case path_exists s file_path of Inl e \<Rightarrow> (Inl e, s) | Inr found \<Rightarrow>
      if \<not> found then (Inr (msg_not_found file_path), s)
      else
       (case read_text s file_path of Inl e \<Rightarrow> (Inl e, s) | Inr current_content \<Rightarrow>
        if current_content = new_content then (Inr (msg_unchanged filename), s)
        else
         (case stat s file_path of Inl e \<Rightarrow> (Inl e, s) | Inr st \<Rightarrow>
          (case simple_write_block s file_path new_content of
             (Inl write_error, s1) \<Rightarrow>
               if is_Exception write_error
               then (Inr (msg_error_writing filename write_error), s1)
               else (Inl write_error, s1)
           | (Inr u, s1) \<Rightarrow> final_verification s1 file_path filename new_content))))"

definition simple_apply_patch_raw :: "fs \<Rightarrow> string \<Rightarrow> string \<Rightarrow> string \<Rightarrow> (exn + string) \<times> fs" where
  "simple_apply_patch_raw s project_root filename new_content =
     (let file_path = resolve project_root filename in
      case debug_probes s file_path of
        Inl e \<Rightarrow> (Inl e, s)
      | Inr u \<Rightarrow>
          except_Exception (simple_apply_patch_try s file_path filename new_content)
            msg_error_updating)"

definition msg_created :: "string \<Rightarrow> string" where
  "msg_created path = ''Created new file: '' @ path"

definition msg_creation_verification_failed :: "string \<Rightarrow> string" where
  "msg_creation_verification_failed path = ''Error: File creation verification failed for '' @ path"

definition msg_not_created :: "string \<Rightarrow> string" where
  "msg_not_created path = ''Error: File was not created at '' @ path"

definition msg_error_creating :: "exn \<Rightarrow> string" where
  "msg_error_creating e = ''Error creating file: '' @ exn_str e"

text \<open>
  \<open>create_new_file_raw\<close> is the same function in both modules up to the notifications
  it sends. Everything that touches the path happens inside its \<open>try\<close> statement.
\<close>

definition create_new_file_try :: "fs \<Rightarrow> string \<Rightarrow> string \<Rightarrow> string \<Rightarrow> (exn + string) \<times> fs" where
  "create_new_file_try s project_root path content =
     (let full_path = resolve project_root path in
      case path_exists s full_path of Inl e \<Rightarrow> (Inl e, s) | Inr b1 \<Rightarrow>
      (case path_exists s (parent full_path) of Inl e \<Rightarrow> (Inl e, s) | Inr b2 \<Rightarrow>
       (case mkdir_parents s (parent full_path) of (Inl e, s1) \<Rightarrow> (Inl e, s1) | (Inr u, s1) \<Rightarrow>
        (case write_text s1 full_path content of Inl e \<Rightarrow> (Inl e, s1) | Inr s2 \<Rightarrow>
         (case path_exists s2 full_path of Inl e \<Rightarrow> (Inl e, s2) | Inr found \<Rightarrow>
          if found then
            (case read_text s2 full_path of Inl e \<Rightarrow> (Inl e, s2) | Inr verification_content \<Rightarrow>
               if verification_content \<noteq> content
               then (Inr (msg_creation_verification_failed path), s2)
               else (Inr (msg_created path), s2))
          else (Inr (msg_not_created path), s2))))))"

definition create_new_file_raw :: "fs \<Rightarrow> string \<Rightarrow> string \<Rightarrow> string \<Rightarrow> (exn + string) \<times> fs" where
  "create_new_file_raw s project_root path content =
     except_Exception (create_new_file_try s project_root path content) msg_error_creating"

section \<open>The project scanner\<close>

definition IGNORED_TOPDIRS :: "string list" where
  "IGNORED_TOPDIRS =
     [''node_modules'', ''venv'', ''__pycache__'', ''.git'', ''dist'', ''build'', ''env'',
      ''.venv'', ''.next'', ''.vite'']"

text \<open>
  The result is a Python \<open>dict\<close> from the relative directory to the names of its files;
  it is kept as an association list in insertion order.
  \<open>tree.setdefault(k, []).extend(v)\<close> appends to the entry of \<open>k\<close> or adds one.
\<close>

type_synonym dir_tree = "(string \<times> string list) list"

fun setdefault_extend :: "dir_tree \<Rightarrow> string \<Rightarrow> string list \<Rightarrow> dir_tree" where
  "setdefault_extend [] k v = [(k, v)]"
| "setdefault_extend ((k', v') # t) k v =
     (if k' = k then (k', v' @ v) # t else (k', v') # setdefault_extend t k v)"

text \<open>
  \<open>os.path.relpath(dirpath, project_root)\<close> for a directory that \<open>os.walk\<close> reached
  from the root through the components \<open>comps\<close>.
\<close>

definition relpath :: "string list \<Rightarrow> string" where
  "relpath comps = (if comps = [] then ''.'' else intercalate ''/'' comps)"

definition dirnames_of :: "(string \<times> node) list \<Rightarrow> string list" where
  "dirnames_of kids = map fst (filter (\<lambda>(name, n). is_Dir n) kids)"

definition filenames_of :: "(string \<times> node) list \<Rightarrow> string list" where
  "filenames_of kids = map fst (filter (\<lambda>(name, n). \<not> is_Dir n) kids)"

text \<open>
  The second loop of \<open>read_dir_tree_raw\<close> together with the top-down \<open>os.walk\<close> that
  drives it: the body sees a directory, may empty or filter \<open>dirnames\<close> in place, and
  the walk then descends into the names that are left, looking each one up again. A
  name that is not a directory there yields nothing, as errors of the listing are
  ignored by \<open>os.walk\<close>. The first loop only counts directories for the progress
  messages.
\<close>

function walk_build :: "string list \<Rightarrow> node \<Rightarrow> dir_tree \<Rightarrow> dir_tree" where
  "walk_build comps (File w c) acc = acc"
| "walk_build comps (Dir kids) acc =
     (let rel = relpath comps; parts = split_sep rel in
      if parts \<noteq> [] \<and> hd parts \<in> set IGNORED_TOPDIRS then acc
      else
        let dirnames = filter (\<lambda>d. d \<notin> set IGNORED_TOPDIRS) (dirnames_of kids);
            reldir = (if rel = ''.'' then [] else rel);
            acc' = setdefault_extend acc reldir (filenames_of kids)
        in fold (\<lambda>d a. case map_of kids d of
                           None \<Rightarrow> a
                         | Some n \<Rightarrow> walk_build (comps @ [d]) n a)
             dirnames acc')"
  by pat_completeness auto
termination
proof (relation "measure (\<lambda>(comps, n, acc). size n)")
  show "wf (measure (\<lambda>(comps, n, acc). size n))"
    by simp
next
  fix comps :: "string list" and kids :: "(string \<times> node) list" and d :: string and n :: node
    and acc x xa xb xc xd :: dir_tree and xe :: "string list" and xf :: string
  assume "map_of kids d = Some n"
  then have "(d, n) \<in> set kids"
    by (rule map_of_SomeD)
  then have "size n < size (Dir kids)"
    by (induction kids) auto
  then show "((comps @ [d], n, xd), (comps, Dir kids, acc)) \<in> measure (\<lambda>(comps, n, acc). size n)"
    by simp
qed

text \<open>
  Paths handed to \<open>os\<close> functions are plain strings; the kernel refuses the empty
  one. \<open>os.walk\<close> yields nothing when the root cannot be listed.
\<close>

definition os_stat :: "fs \<Rightarrow> string \<Rightarrow> exn + node" where
  "os_stat s name = (if name = [] then Inl (OSError ENOENT name) else stat s (Path name))"

definition read_dir_tree_raw :: "fs \<Rightarrow> string \<Rightarrow> exn + dir_tree" where
  "read_dir_tree_raw s project_root =
     (case os_stat s project_root of
        Inr (Dir kids) \<Rightarrow> Inr (walk_build [] (Dir kids) [])
      | Inr (File w c) \<Rightarrow> Inr []
      | Inl e \<Rightarrow> Inr [])"

section \<open>The session runner and the request surface\<close>

text \<open>\<open>os.path.exists\<close> and \<open>os.path.isdir\<close> answer \<open>False\<close> on every error.\<close>

definition os_path_exists :: "fs \<Rightarrow> string \<Rightarrow> bool" where
  "os_path_exists s name = (case os_stat s name of Inr n \<Rightarrow> True | Inl e \<Rightarrow> False)"

definition os_path_isdir :: "fs \<Rightarrow> string \<Rightarrow> bool" where
  "os_path_isdir s name = (case os_stat s name of Inr n \<Rightarrow> is_Dir n | Inl e \<Rightarrow> False)"

text \<open>
  What \<open>simple_agent\<close> does depends on the answer of the language model, so the
  session is a parameter: from the filesystem, the project root, the session id and the
  instruction to a summary or an exception, and the filesystem it leaves.
\<close>

type_synonym session = "fs \<Rightarrow> string \<Rightarrow> string \<Rightarrow> string \<Rightarrow> (exn + string) \<times> fs"

text \<open>\<open>my_agent.agent\<close>: an exception of the session is logged and raised again.\<close>

definition agent :: "session \<Rightarrow> fs \<Rightarrow> string \<Rightarrow> string \<Rightarrow> string \<Rightarrow> (exn + string) \<times> fs" where
  "agent simple_agent s project_root session_id user_instruction =
     (if \<not> os_path_isdir s project_root then (Inl (SystemExit 1), s)
      else simple_agent s project_root session_id user_instruction)"

record request =
  project_path :: string
  session_id :: string
  user_instructions :: string

record response =
  success :: bool
  body :: string
  status :: nat

text \<open>
  \<open>main.fix_sync\<close> for a POST request whose JSON fields are strings (a missing field
  is the empty string). The listing of the project directory before and after the
  session is only printed. \<open>parse_agent_output\<close> formats the summary for display and
  is a parameter.
\<close>

definition fix_sync ::
  "session \<Rightarrow> (string \<Rightarrow> string \<Rightarrow> string \<Rightarrow> string) \<Rightarrow> fs \<Rightarrow> request \<Rightarrow> (exn + response) \<times> fs" where
  "fix_sync simple_agent parse_agent_output s data =
     (if project_path data = [] \<or> session_id data = [] \<or> user_instructions data = [] then
        (Inr \<lparr>success = False,
              body = ''Missing required parameters: project_path, session_id, user_instructions'',
              status = 400\<rparr>, s)
      else if \<not> os_path_exists s (project_path data) then
        (Inr \<lparr>success = False,
              body = ''Project path does not exist: '' @ project_path data,
              status = 400\<rparr>, s)
      else if \<not> os_path_isdir s (project_path data) then
        (Inr \<lparr>success = False,
              body = ''Project path is not a directory: '' @ project_path data,
              status = 400\<rparr>, s)
      else
        (case agent simple_agent s (project_path data) (session_id data) (user_instructions data) of
           (Inl agent_error, s') \<Rightarrow>
             if is_Exception agent_error then
               (Inr \<lparr>success = False,
                     body = ''Agent execution failed: '' @ exn_str agent_error,
                     status = 200\<rparr>, s')
             else (Inl agent_error, s')
         | (Inr result, s') \<Rightarrow>
             if result \<noteq> [] then
               (Inr \<lparr>success = True,
                     body = parse_agent_output result (user_instructions data) (session_id data),
                     status = 200\<rparr>, s')
             else
               (Inr \<lparr>success = False,
                     body = ''Agent completed but returned no output'',
                     status = 200\<rparr>, s')))"

section \<open>Observing the filesystem\<close>

text \<open>
  What is found at a location: nothing, a directory, or a regular file with its
  permission and bytes. Two states with the same entries at every location hold the same
  files and directories.
\<close>

datatype entry = EFile bool string | EDir

definition entry_of :: "node \<Rightarrow> string list \<Rightarrow> entry option" where
  "entry_of r loc =
     (case lookup_node r loc of
        Inl e \<Rightarrow> None
      | Inr (File w c) \<Rightarrow> Some (EFile w c)
      | Inr (Dir kids) \<Rightarrow> Some EDir)"

definition entry_at :: "fs \<Rightarrow> string list \<Rightarrow> entry option" where
  "entry_at s loc = entry_of (tree s) loc"

section \<open>Example states\<close>

definition example_fs :: fs where
  "example_fs =
     \<lparr>tree = Dir [(''proj'',
        Dir [(''index.html'', File True ''<h1>Hi</h1>''),
             (''notes.txt'', File True [CHR ''a'', CR, LF, CHR ''b'']),
             (''locked.txt'', File False ''x''),
             (''node_modules'', Dir [(''pkg'', Dir [(''dist'', Dir [(''x.js'', File True ''1'')]),
                                                    (''i.js'', File True ''2'')])]),
             (''src'', Dir [(''app.py'', File True ''p''),
                            (''build'', Dir [(''o.bin'', File True ''b'')])])])],
      cwd = []\<rparr>"

definition crlf_text :: string where
  "crlf_text = [CHR ''a'', CR, LF, CHR ''b'']"

definition long_name :: string where
  "long_name = replicate 256 (CHR ''a'')"

definition updated_fs :: fs where
  "updated_fs = snd (apply_patch_raw example_fs ''/proj'' ''index.html'' ''<h1>Hi</h1><footer/>'')"



text \<open>A session that writes the instruction to \<open>out.txt\<close> below the project root.\<close>

definition example_session :: session where
  "example_session s project_root sid instruction =
     create_new_file_raw s project_root ''out.txt'' instruction"

definition example_parse :: "string \<Rightarrow> string \<Rightarrow> string \<Rightarrow> string" where
  "example_parse raw_output instructions sid = raw_output"


section \<open>The frame of the file mutator\<close>

text \<open>
  \<open>frame_ok s p s'\<close>: from \<open>s\<close> to \<open>s'\<close> the working directory is the same, the
  entry at every location other than the one \<open>p\<close> resolves to is the same, no
  directory has appeared or gone, and nothing has been created or deleted.
\<close>

definition frame_ok :: "fs \<Rightarrow> ppath \<Rightarrow> fs \<Rightarrow> bool" where
  "frame_ok s p s' \<longleftrightarrow>
     cwd s' = cwd s
     \<and> (\<forall>loc. locate s p \<noteq> Inr loc \<longrightarrow> entry_at s' loc = entry_at s loc)
     \<and> (\<forall>loc. entry_at s' loc = Some EDir \<longleftrightarrow> entry_at s loc = Some EDir)
     \<and> (\<forall>loc. entry_at s' loc = None \<longleftrightarrow> entry_at s loc = None)"

section \<open>What the scanner may record\<close>

text \<open>
  \<open>reldir_of comps\<close> is the key under which the scanner records the directory reached
  through \<open>comps\<close>. \<open>recorded_ok root k names\<close>: the key \<open>k\<close> does not begin with an
  ignored name, and every name in \<open>names\<close> is a file directly inside a directory below
  \<open>root\<close> that has the key \<open>k\<close> and is reached through components none of which is
  ignored.
\<close>

definition reldir_of :: "string list \<Rightarrow> string" where
  "reldir_of comps = (if relpath comps = ''.'' then [] else relpath comps)"

definition recorded_ok :: "node \<Rightarrow> string \<Rightarrow> string list \<Rightarrow> bool" where
  "recorded_ok root k names \<longleftrightarrow>
     hd (split_sep k) \<notin> set IGNORED_TOPDIRS
     \<and> (\<forall>f \<in> set names. \<exists>comps kids.
           k = reldir_of comps
           \<and> set comps \<inter> set IGNORED_TOPDIRS = {}
           \<and> lookup_node root comps = Inr (Dir kids)
           \<and> f \<in> set (filenames_of kids))"

section \<open>Path resolution\<close>

lemma lookup_node_errno: "lookup_node n xs = Inl e \<Longrightarrow> e = ENOENT \<or> e = ENOTDIR"
  by (induction n xs rule: lookup_node.induct) (auto split: option.splits)

lemma namei_append:
  "namei r cur (xs @ ys) = (case namei r cur xs of Inl e \<Rightarrow> Inl e | Inr c \<Rightarrow> namei r c ys)"
  by (induction xs arbitrary: cur) (auto split: sum.splits node.splits)

lemma namei_errno:
  "namei r cur cs = Inl e \<Longrightarrow> e = ENOENT \<or> e = ENOTDIR \<or> e = ENAMETOOLONG"
  by (induction cs arbitrary: cur)
    (auto split: sum.splits node.splits if_splits dest: lookup_node_errno)

lemma locate_parent_errno: "locate s (parent p) = Inl e \<Longrightarrow> locate s p = Inl e"
proof (cases "parts p" rule: rev_cases)
  case Nil
  assume "locate s (parent p) = Inl e"
  with Nil show ?thesis by (simp add: locate_def parent_def)
next
  case (snoc ys y)
  assume "locate s (parent p) = Inl e"
  with snoc show ?thesis
    by (auto simp: locate_def parent_def namei_append split: sum.splits)
qed

text \<open>A probe raises exactly when a component of the path is too long.\<close>

lemma probe_raises:
  "probe f s p = Inl x \<longleftrightarrow> x = OSError ENAMETOOLONG (path_str p) \<and> locate s p = Inl ENAMETOOLONG"
  by (auto simp: probe_def stat_def locate_def split: sum.splits exn.splits if_splits
      dest: lookup_node_errno namei_errno)

lemma debug_probes_ok:
  assumes "locate s p \<noteq> Inl ENAMETOOLONG"
  shows "debug_probes s p = Inr ()"
proof -
  have "locate s (parent p) \<noteq> Inl ENAMETOOLONG"
    using assms locate_parent_errno by blast
  with assms show ?thesis
    by (auto simp: debug_probes_def path_exists_def is_file_def is_dir_def probe_raises
        split: sum.splits)
qed

lemma debug_probes_raises: "debug_probes s p = Inl x \<Longrightarrow> locate s p = Inl ENAMETOOLONG"
  using debug_probes_ok [of s p] by fastforce


lemma stat_locate: "stat s p = Inr n \<Longrightarrow> locate s p \<noteq> Inl ENAMETOOLONG"
  by (auto simp: stat_def split: sum.splits)

lemma read_text_stat: "read_text s p = Inr c \<Longrightarrow> \<exists>w b. stat s p = Inr (File w b) \<and> c = universal_newlines b"
  by (auto simp: read_text_def split: sum.splits node.splits)

lemma stat_path_exists: "stat s p = Inr n \<Longrightarrow> path_exists s p = Inr True"
  by (simp add: path_exists_def probe_def)

section \<open>The outcome strings\<close>

lemmas msg_defs = msg_not_found_def msg_unchanged_def msg_verification_failed_def
  msg_updated_def msg_error_updating_def msg_error_writing_def msg_created_def
  msg_creation_verification_failed_def msg_not_created_def msg_error_creating_def

lemma msg_updated_distinct:
  "msg_updated f \<noteq> msg_not_found p" "msg_updated f \<noteq> msg_unchanged g"
  "msg_updated f \<noteq> msg_verification_failed g" "msg_updated f \<noteq> msg_error_updating e"
  "msg_updated f \<noteq> msg_error_writing g e"
  by (simp_all add: msg_defs)


lemma final_verification_updated:
  "final_verification s1 p f new = (Inr (msg_updated f), s') \<Longrightarrow>
     s' = s1 \<and> read_text s1 p = Inr new"
  by (auto simp: final_verification_def msg_updated_distinct [symmetric]
      split: sum.splits if_splits)

section \<open>The file mutator\<close>





text \<open>
  Claim C1, amended. The tools compare what \<open>read_text\<close> returns, that is the bytes of
  the file after the translation of line ends. When that text equals the new content,
  both variants return the unchanged outcome and the filesystem is the one before the
  call. By \<open>read_text_no_CR\<close> this covers every file whose bytes equal the new
  content and hold no carriage return.
\<close>

theorem apply_patch_unchanged:
  assumes "read_text s (resolve project_root filename) = Inr new_content"
  shows "apply_patch_raw s project_root filename new_content = (Inr (msg_unchanged filename), s)
       \<and> simple_apply_patch_raw s project_root filename new_content
           = (Inr (msg_unchanged filename), s)"
proof -
  obtain w b where st: "stat s (resolve project_root filename) = Inr (File w b)"
    using read_text_stat [OF assms] by blast
  show ?thesis
    using assms debug_probes_ok [OF stat_locate [OF st]] stat_path_exists [OF st]
    by (simp add: apply_patch_raw_def simple_apply_patch_raw_def apply_patch_try_def
        simple_apply_patch_try_def except_Exception_def)
qed

theorem apply_patch_unchanged_witness:
  "read_text example_fs (resolve ''/proj'' ''index.html'') = Inr ''<h1>Hi</h1>''
   \<and> apply_patch_raw example_fs ''/proj'' ''index.html'' ''<h1>Hi</h1>''
       = (Inr ''File index.html already has the requested content'', example_fs)
   \<and> simple_apply_patch_raw example_fs ''/proj'' ''index.html'' ''<h1>Hi</h1>''
       = (Inr ''File index.html already has the requested content'', example_fs)"
proof -
  have same: "read_text example_fs (resolve ''/proj'' ''index.html'') = Inr ''<h1>Hi</h1>''"
    by code_simp
  have msg: "msg_unchanged ''index.html'' = ''File index.html already has the requested content''"
    by code_simp
  show ?thesis
    using apply_patch_unchanged [OF same] same unfolding msg by simp
qed

text \<open>
  Claim C1 as stated fails: \<open>notes.txt\<close> holds the bytes \<open>a CR LF b\<close>, and asked to
  write exactly these bytes both variants write the file and report a failed
  verification, because the text read back has the line end translated.
\<close>

theorem apply_patch_same_bytes_counterexample:
  "stat example_fs (resolve ''/proj'' ''notes.txt'') = Inr (File True crlf_text)
   \<and> fst (apply_patch_raw example_fs ''/proj'' ''notes.txt'' crlf_text)
       = Inr ''Error: File write verification failed for notes.txt''
   \<and> fst (simple_apply_patch_raw example_fs ''/proj'' ''notes.txt'' crlf_text)
       = Inr ''Error: File write verification failed for notes.txt''
   \<and> msg_unchanged ''notes.txt'' \<noteq> ''Error: File write verification failed for notes.txt''"
  by code_simp

lemma apply_patch_try_updated:
  "apply_patch_try s p f new = (Inr (msg_updated f), s') \<Longrightarrow> read_text s' p = Inr new"
  by (auto simp: apply_patch_try_def msg_updated_distinct [symmetric]
      split: sum.splits if_splits dest: final_verification_updated)

lemma simple_apply_patch_try_updated:
  "simple_apply_patch_try s p f new = (Inr (msg_updated f), s') \<Longrightarrow> read_text s' p = Inr new"
  by (auto simp: simple_apply_patch_try_def msg_updated_distinct [symmetric]
      split: sum.splits if_splits prod.splits dest: final_verification_updated)

lemma except_Exception_updated:
  "except_Exception r msg_error_updating = (Inr (msg_updated f), s') \<Longrightarrow> r = (Inr (msg_updated f), s')"
  by (auto simp: except_Exception_def msg_updated_distinct [symmetric]
      split: prod.splits sum.splits if_splits)

text \<open>
  Claim C2. Whenever a variant of \<open>apply_patch_raw\<close> returns the success outcome,
  reading the resolved path in the filesystem it leaves yields exactly the new content.
\<close>

theorem apply_patch_success_read_back:
  "(apply_patch_raw s project_root filename new_content = (Inr (msg_updated filename), s')
      \<longrightarrow> read_text s' (resolve project_root filename) = Inr new_content)
   \<and> (simple_apply_patch_raw s project_root filename new_content = (Inr (msg_updated filename), s')
      \<longrightarrow> read_text s' (resolve project_root filename) = Inr new_content)"
  by (auto simp: apply_patch_raw_def simple_apply_patch_raw_def Let_def
      split: sum.splits dest!: except_Exception_updated
      dest: apply_patch_try_updated simple_apply_patch_try_updated)

theorem apply_patch_success_read_back_witness:
  "apply_patch_raw example_fs ''/proj'' ''index.html'' ''<h1>Hi</h1><footer/>''
     = (Inr (msg_updated ''index.html''), updated_fs)
   \<and> simple_apply_patch_raw example_fs ''/proj'' ''index.html'' ''<h1>Hi</h1><footer/>''
     = (Inr (msg_updated ''index.html''), updated_fs)
   \<and> read_text example_fs (resolve ''/proj'' ''index.html'') = Inr ''<h1>Hi</h1>''
   \<and> read_text updated_fs (resolve ''/proj'' ''index.html'') = Inr ''<h1>Hi</h1><footer/>''"
proof -
  have run: "apply_patch_raw example_fs ''/proj'' ''index.html'' ''<h1>Hi</h1><footer/>''
     = (Inr (msg_updated ''index.html''), updated_fs)"
    by code_simp
  have run': "simple_apply_patch_raw example_fs ''/proj'' ''index.html'' ''<h1>Hi</h1><footer/>''
     = (Inr (msg_updated ''index.html''), updated_fs)"
    by code_simp
  have before: "read_text example_fs (resolve ''/proj'' ''index.html'') = Inr ''<h1>Hi</h1>''"
    by code_simp
  have "read_text updated_fs (resolve ''/proj'' ''index.html'') = Inr ''<h1>Hi</h1><footer/>''"
    using apply_patch_success_read_back [THEN conjunct1, rule_format, OF run] .
  with run run' before show ?thesis by simp
qed




section \<open>The request surface\<close>

lemma os_path_isdir_exists: "os_path_isdir s name \<Longrightarrow> os_path_exists s name"
  by (auto simp: os_path_isdir_def os_path_exists_def split: sum.splits)

text \<open>
  Claim C9. When the project path is empty, names nothing, or names something that is
  not a directory, \<open>fix_sync\<close> returns a response whose \<open>success\<close> field is false, and
  the filesystem is the one before the call, whatever the session would do: the session
  is never started. Called directly, \<open>agent\<close> leaves the filesystem alone as well and
  ends with \<open>sys.exit(1)\<close>.
\<close>

theorem fix_sync_invalid_project_path:
  assumes "\<not> os_path_isdir s (project_path data)"
  shows "(\<exists>r. fix_sync simple_agent parse_agent_output s data = (Inr r, s) \<and> \<not> success r)
       \<and> agent simple_agent s (project_path data) sid instruction = (Inl (SystemExit 1), s)"
  using assms by (auto simp: fix_sync_def agent_def)

theorem fix_sync_invalid_project_path_witness:
  "\<not> os_path_isdir example_fs ''/nonexistent''
   \<and> fix_sync example_session example_parse example_fs
        \<lparr>project_path = ''/nonexistent'', session_id = ''s1'', user_instructions = ''fix''\<rparr>
      = (Inr \<lparr>success = False, body = ''Project path does not exist: /nonexistent'', status = 400\<rparr>,
         example_fs)
   \<and> agent example_session example_fs ''/nonexistent'' ''s1'' ''fix'' = (Inl (SystemExit 1), example_fs)"
proof -
  have bad: "\<not> os_path_isdir example_fs ''/nonexistent''"
    by code_simp
  have gone: "\<not> os_path_exists example_fs ''/nonexistent''"
    by code_simp
  have "agent example_session example_fs ''/nonexistent'' ''s1'' ''fix'' = (Inl (SystemExit 1), example_fs)"
    using fix_sync_invalid_project_path
      [of example_fs "\<lparr>project_path = ''/nonexistent'', session_id = ''s1'', user_instructions = ''fix''\<rparr>"
          example_session example_parse "''s1''" "''fix''"]
      bad by simp
  with bad gone show ?thesis
    by (simp add: fix_sync_def)
qed

section \<open>The project scanner: roots that are not directories\<close>




section \<open>Exceptions leaving the tools\<close>

lemma stat_Exception: "stat s p = Inl x \<Longrightarrow> is_Exception x"
  by (auto simp: stat_def split: sum.splits)

lemma probe_Exception: "probe f s p = Inl x \<Longrightarrow> is_Exception x"
  by (auto simp: probe_raises)

lemma read_text_Exception: "read_text s p = Inl x \<Longrightarrow> is_Exception x"
  by (auto simp: read_text_def split: sum.splits node.splits dest: stat_Exception)

lemma write_text_Exception: "write_text s p d = Inl x \<Longrightarrow> is_Exception x"
  by (auto simp: write_text_def split: sum.splits node.splits if_splits)

lemma os_mkdir_Exception: "os_mkdir s p = Inl x \<Longrightarrow> is_Exception x"
  by (auto simp: os_mkdir_def split: sum.splits node.splits if_splits)

lemma mkdir_single_Exception: "mkdir_single s p ok = (Inl x, s') \<Longrightarrow> is_Exception x"
  by (auto simp: mkdir_single_def is_dir_def split: sum.splits if_splits
      dest: os_mkdir_Exception probe_Exception)

lemma mkdir_parents_Exception: "mkdir_parents s p = (Inl x, s') \<Longrightarrow> is_Exception x"
proof (induction s p arbitrary: x s' rule: mkdir_parents.induct)
  case (1 s p)
  note run = "1.prems" [unfolded mkdir_parents.simps [of s p]]
  show ?case
  proof (cases "os_mkdir s p")
    case (Inr s1)
    with run show ?thesis by simp
  next
    case (Inl e)
    note mk = this
    show ?thesis
    proof (cases "is_FileNotFoundError e \<and> parts p \<noteq> []")
      case False
      with run mk show ?thesis
        by (auto simp: is_dir_def split: sum.splits if_splits
            dest: os_mkdir_Exception probe_Exception)
    next
      case True
      with run mk "1.IH" [of e] show ?thesis
        by (auto split: prod.splits sum.splits dest: mkdir_single_Exception)
    qed
  qed
qed

lemma create_new_file_try_Exception:
  assumes "create_new_file_try s project_root path content = (Inl x, s')"
  shows "is_Exception x"
proof -
  let ?p = "resolve project_root path"
  note d = create_new_file_try_def
  show ?thesis
  proof (cases "path_exists s ?p")
    case (Inl e)
    with assms show ?thesis
      by (auto simp: d path_exists_def dest: probe_Exception)
  next
    case b1: (Inr b1)
    show ?thesis
    proof (cases "path_exists s (parent ?p)")
      case (Inl e)
      with assms b1 show ?thesis
        by (auto simp: d path_exists_def dest: probe_Exception)
    next
      case b2: (Inr b2)
      obtain r s1 where mk: "mkdir_parents s (parent ?p) = (r, s1)"
        by (cases "mkdir_parents s (parent ?p)")
      show ?thesis
      proof (cases r)
        case (Inl e)
        with assms b1 b2 mk show ?thesis
          by (auto simp: d dest: mkdir_parents_Exception)
      next
        case u: (Inr u)
        show ?thesis
        proof (cases "write_text s1 ?p content")
          case (Inl e)
          with assms b1 b2 mk u show ?thesis
            by (auto simp: d dest: write_text_Exception)
        next
          case wr: (Inr s2)
          show ?thesis
          proof (cases "path_exists s2 ?p")
            case (Inl e)
            with assms b1 b2 mk u wr show ?thesis
              by (auto simp: d path_exists_def dest: probe_Exception)
          next
            case (Inr found)
            with assms b1 b2 mk u wr show ?thesis
              by (cases "read_text s2 ?p")
                (auto simp: d split: if_splits dest: read_text_Exception)
          qed
        qed
      qed
    qed
  qed
qed

text \<open>The file creator returns an outcome string on every input.\<close>

lemma create_new_file_raw_returns:
  "\<exists>out. fst (create_new_file_raw s project_root path content) = Inr out"
proof (cases "create_new_file_try s project_root path content")
  case (Pair r s')
  then show ?thesis
    by (cases r) (auto simp: create_new_file_raw_def except_Exception_def
        dest: create_new_file_try_Exception)
qed

lemma final_verification_Exception:
  "final_verification s p f new = (Inl x, s') \<Longrightarrow> is_Exception x"
  by (auto simp: final_verification_def split: sum.splits if_splits
      dest: stat_Exception read_text_Exception)

lemma apply_patch_try_Exception:
  "apply_patch_try s p f new = (Inl x, s') \<Longrightarrow> is_Exception x"
  by (auto simp: apply_patch_try_def path_exists_def split: sum.splits if_splits
      dest: probe_Exception stat_Exception read_text_Exception write_text_Exception
        final_verification_Exception)

lemma simple_write_block_Exception:
  "simple_write_block s p new = (Inl x, s') \<Longrightarrow> is_Exception x"
  by (auto simp: simple_write_block_def split: sum.splits
      dest: write_text_Exception read_text_Exception)

lemma simple_apply_patch_try_Exception:
  "simple_apply_patch_try s p f new = (Inl x, s') \<Longrightarrow> is_Exception x"
  by (auto simp: simple_apply_patch_try_def path_exists_def
      split: sum.splits if_splits prod.splits
      dest: probe_Exception stat_Exception read_text_Exception final_verification_Exception
        simple_write_block_Exception)

text \<open>
  The file mutator returns an outcome string whenever its debugging probes before the
  \<open>try\<close> statement do not raise, that is whenever no component met while resolving
  the path is too long.
\<close>

lemma apply_patch_raw_returns:
  assumes "locate s (resolve project_root filename) \<noteq> Inl ENAMETOOLONG"
  shows "\<exists>out. fst (apply_patch_raw s project_root filename new_content) = Inr out"
    and "\<exists>out. fst (simple_apply_patch_raw s project_root filename new_content) = Inr out"
proof -
  let ?p = "resolve project_root filename"
  show "\<exists>out. fst (apply_patch_raw s project_root filename new_content) = Inr out"
  proof (cases "apply_patch_try s ?p filename new_content")
    case (Pair r s')
    then show ?thesis
      using debug_probes_ok [OF assms]
      by (cases r) (auto simp: apply_patch_raw_def except_Exception_def
          dest: apply_patch_try_Exception)
  qed
  show "\<exists>out. fst (simple_apply_patch_raw s project_root filename new_content) = Inr out"
  proof (cases "simple_apply_patch_try s ?p filename new_content")
    case (Pair r s')
    then show ?thesis
      using debug_probes_ok [OF assms]
      by (cases r) (auto simp: simple_apply_patch_raw_def except_Exception_def
          dest: simple_apply_patch_try_Exception)
  qed
qed

text \<open>
  Claim C7 fails for the file mutator. Asked to change a file whose name has 256
  characters, \<open>file_path.exists()\<close> in the debugging output before the \<open>try\<close>
  statement raises \<open>OSError\<close> (file name too long), and the exception leaves both
  variants of \<open>apply_patch_raw\<close>. The file creator, whose probes are inside its
  \<open>try\<close> statement, turns the same error into an outcome string.
\<close>

theorem apply_patch_raises_on_long_name:
  "fst (apply_patch_raw example_fs ''/proj'' long_name ''x'')
     = Inl (OSError ENAMETOOLONG (''/proj/'' @ long_name))
   \<and> fst (simple_apply_patch_raw example_fs ''/proj'' long_name ''x'')
     = Inl (OSError ENAMETOOLONG (''/proj/'' @ long_name))
   \<and> fst (create_new_file_raw example_fs ''/proj'' long_name ''x'')
     = Inr (msg_error_creating (OSError ENAMETOOLONG (''/proj/'' @ long_name)))"
  by code_simp

section \<open>The frame of a write\<close>

lemma map_of_update_conv:
  "map_of (AList.update k v al) k' = (if k' = k then Some v else map_of al k')"
  by (simp add: update_conv')

text \<open>
  Overwriting a regular file changes the entry at its location and no other: every
  directory stays a directory, and what was absent stays absent.
\<close>

lemma entry_of_store_file:
  assumes "lookup_node n loc = Inr (File w c)"
  shows "entry_of (store_node n loc (File w' d)) loc'
           = (if loc' = loc then Some (EFile w' d) else entry_of n loc')"
  using assms
proof (induction n loc "File w' d" arbitrary: loc' rule: store_node.induct)
  case (1 n)
  then show ?case
    by (cases loc') (auto simp: entry_of_def)
next
  case (2 w0 c0 x xs)
  then show ?case by simp
next
  case (3 kids x xs)
  from "3.prems" obtain k where k: "map_of kids x = Some k" "lookup_node k xs = Inr (File w c)"
    by (auto split: option.splits)
  show ?case
  proof (cases loc')
    case Nil
    with k show ?thesis by (simp add: entry_of_def)
  next
    case (Cons y ys)
    show ?thesis
    proof (cases "y = x")
      case True
      with Cons k "3.hyps" [OF k(1) k(2), of ys] show ?thesis
        by (simp add: entry_of_def map_of_update_conv)
    next
      case False
      with Cons k show ?thesis
        by (simp add: entry_of_def map_of_update_conv)
    qed
  qed
qed

lemma write_text_existing:
  assumes "stat s p = Inr (File w c)" and "write_text s p d = Inr s1"
  shows "\<exists>loc. locate s p = Inr loc \<and> lookup_node (tree s) loc = Inr (File w c)
           \<and> s1 = s\<lparr>tree := store_node (tree s) loc (File w d)\<rparr>"
  using assms
  by (auto simp: stat_def write_text_def split: sum.splits if_splits)

lemma write_text_frame:
  assumes "stat s p = Inr (File w c)" and "write_text s p d = Inr s1"
  shows "cwd s1 = cwd s
       \<and> (\<exists>loc. locate s p = Inr loc
            \<and> (\<forall>loc'. entry_at s1 loc' = (if loc' = loc then Some (EFile w d) else entry_at s loc')))"
proof -
  obtain loc where loc: "locate s p = Inr loc" "lookup_node (tree s) loc = Inr (File w c)"
    "s1 = s\<lparr>tree := store_node (tree s) loc (File w d)\<rparr>"
    using write_text_existing [OF assms] by blast
  show ?thesis
    using loc entry_of_store_file [OF loc(2)] by (simp add: entry_at_def)
qed

lemma final_verification_state: "final_verification s1 p f new = (r, s') \<Longrightarrow> s' = s1"
  by (auto simp: final_verification_def split: sum.splits if_splits)

lemma simple_write_block_state:
  "simple_write_block s p new = (r, s') \<Longrightarrow> s' = s \<or> write_text s p new = Inr s'"
  by (auto simp: simple_write_block_def split: sum.splits)

text \<open>Either variant leaves the state it found or the state of its one write.\<close>

lemma apply_patch_try_state:
  assumes "apply_patch_try s p f new = (r, s')"
  shows "s' = s \<or> (\<exists>w c. stat s p = Inr (File w c) \<and> write_text s p new = Inr s')"
proof (cases "read_text s p")
  case (Inl e)
  with assms show ?thesis
    by (auto simp: apply_patch_try_def split: sum.splits if_splits)
next
  case (Inr cur)
  then obtain w c where "stat s p = Inr (File w c)"
    using read_text_stat by blast
  with assms Inr show ?thesis
    by (auto simp: apply_patch_try_def split: sum.splits if_splits
        dest: final_verification_state)
qed

lemma simple_apply_patch_try_state:
  assumes "simple_apply_patch_try s p f new = (r, s')"
  shows "s' = s \<or> (\<exists>w c. stat s p = Inr (File w c) \<and> write_text s p new = Inr s')"
proof (cases "read_text s p")
  case (Inl e)
  with assms show ?thesis
    by (auto simp: simple_apply_patch_try_def split: sum.splits if_splits)
next
  case (Inr cur)
  then obtain w c where "stat s p = Inr (File w c)"
    using read_text_stat by blast
  with assms Inr show ?thesis
    by (auto simp: simple_apply_patch_try_def split: sum.splits if_splits prod.splits
        dest: final_verification_state simple_write_block_state)
qed

lemma except_Exception_state: "except_Exception (r, s') h = (r', s'') \<Longrightarrow> s'' = s'"
  by (auto simp: except_Exception_def split: sum.splits if_splits)

lemma apply_patch_raw_state:
  assumes "apply_patch_raw s project_root filename new = (r, s')"
  shows "s' = s \<or> (\<exists>w c. stat s (resolve project_root filename) = Inr (File w c)
                      \<and> write_text s (resolve project_root filename) new = Inr s')"
proof (cases "debug_probes s (resolve project_root filename)")
  case (Inl e)
  with assms show ?thesis by (simp add: apply_patch_raw_def)
next
  case (Inr u)
  obtain r0 s0 where t: "apply_patch_try s (resolve project_root filename) filename new = (r0, s0)"
    by (cases "apply_patch_try s (resolve project_root filename) filename new")
  with assms Inr have "s' = s0"
    by (auto simp: apply_patch_raw_def dest: except_Exception_state)
  with apply_patch_try_state [OF t] show ?thesis by simp
qed

lemma simple_apply_patch_raw_state:
  assumes "simple_apply_patch_raw s project_root filename new = (r, s')"
  shows "s' = s \<or> (\<exists>w c. stat s (resolve project_root filename) = Inr (File w c)
                      \<and> write_text s (resolve project_root filename) new = Inr s')"
proof (cases "debug_probes s (resolve project_root filename)")
  case (Inl e)
  with assms show ?thesis by (simp add: simple_apply_patch_raw_def)
next
  case (Inr u)
  obtain r0 s0 where t: "simple_apply_patch_try s (resolve project_root filename) filename new = (r0, s0)"
    by (cases "simple_apply_patch_try s (resolve project_root filename) filename new")
  with assms Inr have "s' = s0"
    by (auto simp: simple_apply_patch_raw_def dest: except_Exception_state)
  with simple_apply_patch_try_state [OF t] show ?thesis by simp
qed

lemma frame_ok_refl: "frame_ok s p s"
  by (simp add: frame_ok_def)

lemma frame_ok_write:
  assumes "stat s p = Inr (File w c)" and "write_text s p d = Inr s1"
  shows "frame_ok s p s1"
proof -
  obtain loc where loc: "locate s p = Inr loc" "lookup_node (tree s) loc = Inr (File w c)"
    and fr: "cwd s1 = cwd s"
      "\<forall>loc'. entry_at s1 loc' = (if loc' = loc then Some (EFile w d) else entry_at s loc')"
    using write_text_frame [OF assms] write_text_existing [OF assms] by auto
  have at: "entry_at s loc = Some (EFile w c)"
    using loc(2) by (simp add: entry_at_def entry_of_def)
  show ?thesis
    unfolding frame_ok_def using loc(1) fr at by auto
qed

text \<open>
  Claim C10. Whatever a variant of \<open>apply_patch_raw\<close> returns or raises, the
  filesystem it leaves differs from the one it found at most in the regular file at the
  location the path resolves to: every other entry is as before, no directory is created
  or removed, and no entry is created or deleted.
\<close>

theorem apply_patch_frame:
  "(apply_patch_raw s project_root filename new_content = (r, s')
      \<longrightarrow> frame_ok s (resolve project_root filename) s')
   \<and> (simple_apply_patch_raw s project_root filename new_content = (r, s')
      \<longrightarrow> frame_ok s (resolve project_root filename) s')"
  using apply_patch_raw_state [of s project_root filename new_content r s']
    simple_apply_patch_raw_state [of s project_root filename new_content r s']
  by (auto intro: frame_ok_refl frame_ok_write)

theorem apply_patch_frame_witness:
  "apply_patch_raw example_fs ''/proj'' ''index.html'' ''<h1>Hi</h1><footer/>''
     = (Inr (msg_updated ''index.html''), updated_fs)
   \<and> locate example_fs (resolve ''/proj'' ''index.html'') = Inr [''proj'', ''index.html'']
   \<and> frame_ok example_fs (resolve ''/proj'' ''index.html'') updated_fs
   \<and> entry_at updated_fs [''proj'', ''notes.txt''] = entry_at example_fs [''proj'', ''notes.txt'']
   \<and> entry_at example_fs [''proj'', ''index.html''] = Some (EFile True ''<h1>Hi</h1>'')
   \<and> entry_at updated_fs [''proj'', ''index.html''] = Some (EFile True ''<h1>Hi</h1><footer/>'')"
proof -
  have run: "apply_patch_raw example_fs ''/proj'' ''index.html'' ''<h1>Hi</h1><footer/>''
     = (Inr (msg_updated ''index.html''), updated_fs)"
    by code_simp
  have loc: "locate example_fs (resolve ''/proj'' ''index.html'') = Inr [''proj'', ''index.html'']"
    by code_simp
  have fr: "frame_ok example_fs (resolve ''/proj'' ''index.html'') updated_fs"
    using apply_patch_frame [THEN conjunct1, rule_format, OF run] .
  have other: "entry_at updated_fs [''proj'', ''notes.txt''] = entry_at example_fs [''proj'', ''notes.txt'']"
    using fr loc by (simp add: frame_ok_def)
  have before: "entry_at example_fs [''proj'', ''index.html''] = Some (EFile True ''<h1>Hi</h1>'')"
    by code_simp
  have after: "entry_at updated_fs [''proj'', ''index.html''] = Some (EFile True ''<h1>Hi</h1><footer/>'')"
    by code_simp
  from run loc fr other before after show ?thesis by simp
qed

section \<open>The file creator\<close>













section \<open>The project scanner: ignored directories\<close>

lemma lookup_node_append:
  "lookup_node n (xs @ ys) = (case lookup_node n xs of Inl e \<Rightarrow> Inl e | Inr m \<Rightarrow> lookup_node m ys)"
  by (induction n xs rule: lookup_node.induct) (auto split: option.splits)

lemma recorded_ok_append:
  "recorded_ok root k ns \<Longrightarrow> recorded_ok root k v \<Longrightarrow> recorded_ok root k (ns @ v)"
  by (auto simp: recorded_ok_def)

lemma setdefault_extend_ok:
  assumes "\<forall>(k', ns) \<in> set acc. recorded_ok root k' ns" and "recorded_ok root k v"
  shows "\<forall>(k', ns) \<in> set (setdefault_extend acc k v). recorded_ok root k' ns"
  using assms by (induction acc) (auto intro: recorded_ok_append split: if_splits)

lemma fold_invariant:
  assumes "I a" and "\<And>d b. d \<in> set ds \<Longrightarrow> I b \<Longrightarrow> I (g d b)"
  shows "I (fold g ds a)"
  using assms by (induction ds arbitrary: a) auto

lemma split_sep_not_Nil: "split_sep k \<noteq> []"
  by (induction k) (auto split: list.splits)

lemma empty_not_ignored: "[] \<notin> set IGNORED_TOPDIRS"
  by (simp add: IGNORED_TOPDIRS_def)

lemma walk_build_ok:
  assumes "\<forall>(k, ns) \<in> set acc. recorded_ok root k ns"
    and "lookup_node root comps = Inr n"
    and "set comps \<inter> set IGNORED_TOPDIRS = {}"
  shows "\<forall>(k, ns) \<in> set (walk_build comps n acc). recorded_ok root k ns"
  using assms
proof (induction comps n acc rule: walk_build.induct)
  case (1 comps w c acc)
  then show ?case by simp
next
  case (2 comps kids acc)
  let ?rel = "relpath comps"
  show ?case
  proof (cases "hd (split_sep ?rel) \<in> set IGNORED_TOPDIRS")
    case True
    with "2.prems"(1) show ?thesis
      by (simp add: Let_def split_sep_not_Nil)
  next
    case False
    let ?dirnames = "filter (\<lambda>d. d \<notin> set IGNORED_TOPDIRS) (dirnames_of kids)"
    let ?reldir = "if ?rel = ''.'' then [] else ?rel"
    let ?acc' = "setdefault_extend acc ?reldir (filenames_of kids)"
    let ?g = "\<lambda>d a. case map_of kids d of None \<Rightarrow> a | Some n \<Rightarrow> walk_build (comps @ [d]) n a"
    have head: "hd (split_sep ?reldir) \<notin> set IGNORED_TOPDIRS"
      using False empty_not_ignored by simp
    have "recorded_ok root ?reldir (filenames_of kids)"
      unfolding recorded_ok_def
      using head "2.prems"(2,3) by (auto simp: reldir_of_def)
    then have acc': "\<forall>(k, ns) \<in> set ?acc'. recorded_ok root k ns"
      using "2.prems"(1) by (rule setdefault_extend_ok [rotated])
    have step: "\<forall>(k, ns) \<in> set (?g d b). recorded_ok root k ns"
      if d: "d \<in> set ?dirnames" and b: "\<forall>(k, ns) \<in> set b. recorded_ok root k ns" for d b
    proof (cases "map_of kids d")
      case None
      with b show ?thesis by simp
    next
      case (Some n')
      have look: "lookup_node root (comps @ [d]) = Inr n'"
        using "2.prems"(2) Some by (simp add: lookup_node_append)
      have ign: "set (comps @ [d]) \<inter> set IGNORED_TOPDIRS = {}"
        using "2.prems"(3) d by auto
      have "\<forall>(k, ns) \<in> set (walk_build (comps @ [d]) n' b). recorded_ok root k ns"
        using False d Some b look ign
        by (intro "2.IH" [OF refl refl _ refl refl refl]) auto
      with Some show ?thesis by simp
    qed
    have "\<forall>(k, ns) \<in> set (fold ?g ?dirnames ?acc'). recorded_ok root k ns"
      using acc' step by (rule fold_invariant)
    with False show ?thesis
      by (simp add: Let_def split_sep_not_Nil)
  qed
qed

text \<open>
  Claim C5. Every entry of the tree the scanner returns has a key that does not begin
  with an ignored name, and each file name recorded under it is a file directly inside a
  directory with that key which is reached from the root through components none of
  which is ignored. So neither an ignored directory, nor a directory below one, nor a
  file of such a subtree is recorded.
\<close>

theorem scan_excludes_ignored:
  assumes "read_dir_tree_raw s project_root = Inr t" and "(k, names) \<in> set t"
  shows "\<exists>rootkids. os_stat s project_root = Inr (Dir rootkids)
           \<and> recorded_ok (Dir rootkids) k names"
proof (cases "os_stat s project_root")
  case (Inl e)
  with assms show ?thesis
    by (simp add: read_dir_tree_raw_def)
next
  case (Inr nd)
  show ?thesis
  proof (cases nd)
    case (File w c)
    with Inr assms show ?thesis
      by (simp add: read_dir_tree_raw_def)
  next
    case (Dir rootkids)
    with Inr assms(1) have t: "t = walk_build [] (Dir rootkids) []"
      by (simp add: read_dir_tree_raw_def)
    have "\<forall>(k, ns) \<in> set (walk_build [] (Dir rootkids) []). recorded_ok (Dir rootkids) k ns"
      by (rule walk_build_ok) simp_all
    with t assms(2) Inr Dir show ?thesis
      by auto
  qed
qed

theorem scan_excludes_ignored_witness:
  "read_dir_tree_raw example_fs ''/proj''
     = Inr [([], [''index.html'', ''notes.txt'', ''locked.txt'']), (''src'', [''app.py''])]
   \<and> os_path_isdir example_fs ''/proj/node_modules/pkg''
   \<and> os_path_isdir example_fs ''/proj/src/build''
   \<and> (\<exists>rootkids. os_stat example_fs ''/proj'' = Inr (Dir rootkids)
         \<and> recorded_ok (Dir rootkids) ''src'' [''app.py''])"
proof -
  have run: "read_dir_tree_raw example_fs ''/proj''
     = Inr [([], [''index.html'', ''notes.txt'', ''locked.txt'']), (''src'', [''app.py''])]"
    by code_simp
  have mem: "(''src'', [''app.py''])
     \<in> set [([], [''index.html'', ''notes.txt'', ''locked.txt'']), (''src'', [''app.py''])]"
    by simp
  have d1: "os_path_isdir example_fs ''/proj/node_modules/pkg''"
    by code_simp
  have d2: "os_path_isdir example_fs ''/proj/src/build''"
    by code_simp
  from run d1 d2 scan_excludes_ignored [OF run mem] show ?thesis
    by simp
qed

end
